theory Spec2Isabelle
  imports Complex_Main "HOL-Library.Sublist"
begin

section \<open>Values of the worker\<close>

text \<open>
  A JavaScript string is a sequence of UTF-16 code units. The literals of \<open>src/index.ts\<close>
  are written out as their code units; the printable ASCII parts are kept readable through
  \<open>ascii\<close>.
\<close>

type_synonym jsstring = "nat list"

definition ascii :: "string \<Rightarrow> jsstring" where
  "ascii s = map of_char s"

text \<open>
  A JavaScript \<open>number\<close>, as far as the worker looks at one: it only compares it with zero
  and prints it. A finite double is the real number it denotes.
\<close>

datatype jsnumber = NaN | NegInfinity | Finite real | PosInfinity

text \<open>The comparison \<open>x > 0\<close>.\<close>

fun gt_zero :: "jsnumber \<Rightarrow> bool" where
  "gt_zero (Finite r) = (0 < r)"
| "gt_zero PosInfinity = True"
| "gt_zero NegInfinity = False"
| "gt_zero NaN = False"

text \<open>
  A value that \<open>JSON.parse\<close> returns. An object is the list of its properties; when a key
  comes twice the later one counts, as in \<open>JSON.parse\<close>. What the worker gets when it reads a
  property of such a value is the property or \<open>undefined\<close>, here \<open>None\<close>.
\<close>

datatype json =
    JNull
  | JBool bool
  | JNum jsnumber
  | JStr jsstring
  | JArr "json list"
  | JObj "(jsstring \<times> json) list"

type_synonym jsvalue = "json option"

text \<open>
  \<open>interface Account\<close>, as \<open>processAccount\<close> uses an entry of the stored list: the text of
  its \<open>email\<close>, which goes into the messages, and its \<open>cookie\<close>, which the worker hands to
  \<open>fetch\<close> as it is, without looking at it. Then \<open>interface GetHardLimitResponse\<close> (both
  fields optional), and the body the webhook answers with.
\<close>

record Account =
  email :: jsstring
  cookie :: jsvalue

record GetHardLimitResponse =
  noUsageBasedAllowed :: "bool option"
  hardLimit :: "jsnumber option"

record WeChatResult =
  errcode :: jsnumber
  errmsg :: jsstring

datatype exn = NetworkError | SyntaxError | StorageError | TypeError

section \<open>Effects\<close>

text \<open>
  What a run does to the outside is a list of events, in order: a read of the key-value
  store, a call of \<open>fetch\<close> (for the status endpoint, the disable endpoint or the webhook),
  and a call of the notifier \<open>sendWeChatNotification\<close> with its two arguments. A call of
  \<open>fetch\<close> for a billing endpoint is known by the cookie it is given; the other headers and
  the fixed request bodies are not part of an event. The console output is not modelled, but
  an error raised while a logged text is built is.
\<close>

datatype request =
    GetHardLimit jsvalue
  | SetHardLimit jsvalue
  | WebhookSend jsstring jsstring

datatype event =
    KVGet jsstring
  | Fetch request
  | NotifyCall "jsstring option" jsstring

text \<open>
  An \<open>async\<close> function takes the events that happened before it was called and gives back
  either the error it rejects with or its value, and the events it added. What the outside
  answers may depend on everything that happened before.
\<close>

type_synonym 'a io = "event list \<Rightarrow> (exn + 'a) \<times> event list"

definition io_return :: "'a \<Rightarrow> 'a io" where
  "io_return x hist = (Inr x, [])"

definition io_lift :: "exn + 'a \<Rightarrow> 'a io" where
  "io_lift r hist = (r, [])"

definition emit :: "event \<Rightarrow> unit io" where
  "emit ev hist = (Inr (), [ev])"

text \<open>\<open>await m\<close> followed by the rest of the function: an error of \<open>m\<close> ends it.\<close>

definition io_bind :: "'a io \<Rightarrow> ('a \<Rightarrow> 'b io) \<Rightarrow> 'b io" where
  "io_bind m f hist =
     (case m hist of
        (Inl e, es) \<Rightarrow> (Inl e, es)
      | (Inr x, es) \<Rightarrow> (case f x (hist @ es) of (r, es') \<Rightarrow> (r, es @ es')))"

text \<open>\<open>try { m } catch (error) { h }\<close>.\<close>

definition io_catch :: "'a io \<Rightarrow> (exn \<Rightarrow> 'a io) \<Rightarrow> 'a io" where
  "io_catch m h hist =
     (case m hist of
        (Inl e, es) \<Rightarrow> (case h e (hist @ es) of (r, es') \<Rightarrow> (r, es @ es'))
      | (Inr x, es) \<Rightarrow> (Inr x, es))"

text \<open>
  The answer to an outbound \<open>fetch\<close>: the call rejects, or there is a response with its
  \<open>ok\<close> flag and what \<open>response.json()\<close> gives (an error when the body does not parse).
\<close>

record 'a HttpResponse =
  resp_ok :: bool
  resp_json :: "exn + 'a"

datatype 'a outcome = Rejected exn | Responded "'a HttpResponse"

definition outbound :: "request \<Rightarrow> (event list \<Rightarrow> 'a outcome) \<Rightarrow> 'a HttpResponse io" where
  "outbound req answer hist =
     (case answer hist of
        Rejected e \<Rightarrow> (Inl e, [Fetch req])
      | Responded r \<Rightarrow> (Inr r, [Fetch req]))"

text \<open>
  The platform the worker runs on: the three remote endpoints, \<open>JSON.parse\<close> applied to the
  stored text, \<open>JSON.stringify\<close>, the conversion of a number inside a template literal,
  and \<open>new Date().toISOString()\<close>.
\<close>

record platform =
  get_hard_limit_api :: "jsvalue \<Rightarrow> event list \<Rightarrow> GetHardLimitResponse outcome"
  set_hard_limit_api :: "jsvalue \<Rightarrow> event list \<Rightarrow> unit outcome"
  webhook_api :: "jsstring \<Rightarrow> jsstring \<Rightarrow> event list \<Rightarrow> WeChatResult outcome"
  JSON_parse :: "jsstring \<Rightarrow> exn + json"
  JSON_stringify :: "json \<Rightarrow> jsstring"
  Number_toString :: "jsnumber \<Rightarrow> jsstring"
  Date_toISOString :: "event list \<Rightarrow> jsstring"

text \<open>\<open>interface Env\<close>. A binding that is not configured is \<open>None\<close>.\<close>

record Env =
  CURSOR_KV :: "jsstring \<Rightarrow> event list \<Rightarrow> exn + jsstring option"
  WECHAT_WEBHOOK_KEY :: "jsstring option"

section \<open>The notifier, the status checker and the limit disabler\<close>

text \<open>A string is falsy when it is missing or empty (\<open>!webhookKey\<close>, \<open>!accountsJson\<close>).\<close>

fun falsy :: "jsstring option \<Rightarrow> bool" where
  "falsy None = True"
| "falsy (Some s) = (s = [])"

definition sendWeChatNotification :: "platform \<Rightarrow> jsstring option \<Rightarrow> jsstring \<Rightarrow> bool io" where
  "sendWeChatNotification pf webhookKey message =
     io_bind (emit (NotifyCall webhookKey message)) (\<lambda>_.
       case webhookKey of
         None \<Rightarrow> io_return False
       | Some key \<Rightarrow>
           if key = [] then io_return False
           else
             io_catch
               (io_bind (outbound (WebhookSend key message) (webhook_api pf key message))
                  (\<lambda>response.
                     if \<not> resp_ok response then io_return False
                     else io_bind (io_lift (resp_json response))
                       (\<lambda>result.
                          if errcode result \<noteq> Finite 0 then io_return False
                          else io_return True)))
               (\<lambda>error. io_return False))"

definition checkHardLimit :: "platform \<Rightarrow> jsvalue \<Rightarrow> GetHardLimitResponse option io" where
  "checkHardLimit pf cookie' =
     io_catch
       (io_bind (outbound (GetHardLimit cookie') (get_hard_limit_api pf cookie'))
          (\<lambda>response.
             if \<not> resp_ok response then io_return None
             else io_bind (io_lift (resp_json response)) (\<lambda>status. io_return (Some status))))
       (\<lambda>error. io_return None)"

definition disableHardLimit :: "platform \<Rightarrow> jsvalue \<Rightarrow> bool io" where
  "disableHardLimit pf cookie' =
     io_catch
       (io_bind (outbound (SetHardLimit cookie') (set_hard_limit_api pf cookie'))
          (\<lambda>response.
             if \<not> resp_ok response then io_return False
             else io_return True))
       (\<lambda>error. io_return False)"

section \<open>One account\<close>

text \<open>
  The three messages of \<open>processAccount\<close>, template literals in Chinese. Line 150: account
  \<open>email\<close>, the check failed, the cookie may have expired, please update it. Line 170: account
  \<open>email\<close>, usage-based billing was switched on (limit \<open>$hardLimit\<close>), it has been switched
  off. Line 175: account \<open>email\<close>, usage-based billing was switched on, but switching it off
  failed, please handle it by hand.
\<close>

definition msg_check_failed :: "jsstring \<Rightarrow> jsstring" where
  "msg_check_failed account_email =
     [36134, 21495] @ ascii '' '' @ account_email @ ascii '' ''
     @ [26816, 26597, 22833, 36133, 65292, 21487, 33021] @ ascii '' Cookie ''
     @ [24050, 36807, 26399, 65292, 35831, 26356, 26032] @ ascii '' Cookie''"

definition msg_disabled :: "jsstring \<Rightarrow> jsstring \<Rightarrow> jsstring" where
  "msg_disabled account_email limit =
     [36134, 21495] @ ascii '' '' @ account_email @ ascii '' ''
     @ [25353, 37327, 20184, 36153, 34987, 24320, 21551, 65288, 38480, 39069] @ ascii '' $''
     @ limit @ [65289, 65292, 24050, 33258, 21160, 20851, 38381]"

definition msg_disable_failed :: "jsstring \<Rightarrow> jsstring" where
  "msg_disable_failed account_email =
     [36134, 21495] @ ascii '' '' @ account_email @ ascii '' ''
     @ [25353, 37327, 20184, 36153, 34987, 24320, 21551, 65292, 20294, 33258, 21160,
        20851, 38381, 22833, 36133, 65292, 35831, 25163, 21160, 22788, 29702, 65281]"

definition processAccount :: "platform \<Rightarrow> Account \<Rightarrow> jsstring option \<Rightarrow> unit io" where
  "processAccount pf account webhookKey =
     io_bind (checkHardLimit pf (cookie account)) (\<lambda>status.
       case status of
         None \<Rightarrow>
           io_bind (sendWeChatNotification pf webhookKey (msg_check_failed (email account)))
             (\<lambda>_. io_return ())
       | Some st \<Rightarrow>
           if noUsageBasedAllowed st = Some True then io_return ()
           else
             (case hardLimit st of
                None \<Rightarrow> io_return ()
              | Some limit \<Rightarrow>
                  if gt_zero limit then
                    io_bind (disableHardLimit pf (cookie account)) (\<lambda>success.
                      if success then
                        io_bind (sendWeChatNotification pf webhookKey
                                   (msg_disabled (email account) (Number_toString pf limit)))
                          (\<lambda>_. io_return ())
                      else
                        io_bind (sendWeChatNotification pf webhookKey
                                   (msg_disable_failed (email account)))
                          (\<lambda>_. io_return ()))
                  else io_return ()))"

section \<open>A run\<close>

text \<open>
  The messages of \<open>handleScheduled\<close> and the key it reads. Line 198: the script stopped on
  an error, no account configuration found, please add \<open>cursor_accounts\<close> to the KV. Line 210:
  the script stopped on an error, the JSON of the account configuration is malformed, please
  check. Line 230: an error happened while processing account \<open>email\<close>, please look at the
  log.
\<close>

definition msg_config_missing :: jsstring where
  "msg_config_missing =
     [33050, 26412, 22240, 38169, 35823, 20572, 27490, 65306, 26410, 25214, 21040, 36134,
      21495, 37197, 32622, 65292, 35831, 22312] @ ascii '' KV '' @ [20013, 28155, 21152]
     @ ascii '' cursor_accounts''"

definition msg_config_malformed :: jsstring where
  "msg_config_malformed =
     [33050, 26412, 22240, 38169, 35823, 20572, 27490, 65306, 36134, 21495, 37197, 32622]
     @ ascii '' JSON '' @ [26684, 24335, 38169, 35823, 65292, 35831, 26816, 26597]"

definition msg_account_error :: "jsstring \<Rightarrow> jsstring" where
  "msg_account_error account_email =
     [22788, 29702, 36134, 21495] @ ascii '' '' @ account_email @ ascii '' ''
     @ [26102, 21457, 29983, 38169, 35823, 65292, 35831, 26597, 30475, 26085, 24535]"

definition kv_get :: "Env \<Rightarrow> jsstring \<Rightarrow> jsstring option io" where
  "kv_get env k hist = (CURSOR_KV env k hist, [KVGet k])"

text \<open>
  The source takes what \<open>JSON.parse\<close> returns \<open>as Account[]\<close> without looking at it, so
  \<open>handleScheduled\<close> and \<open>processAccount\<close> work on any JSON value. The operations they apply
  to it follow.

  An own property of an object, the later entry first. For a value that is not \<open>null\<close> this
  is what \<open>v.email\<close> and \<open>v.cookie\<close> give: no prototype has these two keys.
\<close>

fun own_property :: "json \<Rightarrow> jsstring \<Rightarrow> jsvalue" where
  "own_property (JObj ps) k = map_of (rev ps) k"
| "own_property v k = None"

text \<open>
  The text of a value inside a template literal (\<open>ToString\<close>). An array is joined with
  commas, a \<open>null\<close> entry giving the empty text. An object is \<open>[object Object]\<close>, unless it
  has a property \<open>toString\<close> of its own: that is never a function in parsed JSON, the
  inherited \<open>valueOf\<close> returns the object, and the conversion raises a \<open>TypeError\<close>.
\<close>

fun json_text :: "platform \<Rightarrow> json \<Rightarrow> exn + jsstring"
  and join_text :: "platform \<Rightarrow> json list \<Rightarrow> exn + jsstring" where
  "json_text pf JNull = Inr (ascii ''null'')"
| "json_text pf (JBool b) = Inr (if b then ascii ''true'' else ascii ''false'')"
| "json_text pf (JNum n) = Inr (Number_toString pf n)"
| "json_text pf (JStr s) = Inr s"
| "json_text pf (JArr xs) = join_text pf xs"
| "json_text pf (JObj ps) =
     (if own_property (JObj ps) (ascii ''toString'') = None then Inr (ascii ''[object Object]'')
      else Inl TypeError)"
| "join_text pf [] = Inr []"
| "join_text pf [x] = (if x = JNull then Inr [] else json_text pf x)"
| "join_text pf (x # y # ys) =
     (case (if x = JNull then Inr [] else json_text pf x) of
        Inl e \<Rightarrow> Inl e
      | Inr s \<Rightarrow>
          (case join_text pf (y # ys) of
             Inl e \<Rightarrow> Inl e
           | Inr t \<Rightarrow> Inr (s @ ascii '','' @ t)))"

fun to_string :: "platform \<Rightarrow> jsvalue \<Rightarrow> exn + jsstring" where
  "to_string pf None = Inr (ascii ''undefined'')"
| "to_string pf (Some v) = json_text pf v"

text \<open>
  What \<open>processAccount\<close> and the \<open>catch\<close> block of the loop read of an entry \<open>account\<close> of
  the list. The first thing either does is to build a text with \<open>account.email\<close> in it
  (lines 142 and 227): on \<open>null\<close> the property access raises a \<open>TypeError\<close>, and so does the
  conversion of an email that has no text.
\<close>

definition read_account :: "platform \<Rightarrow> json \<Rightarrow> exn + Account" where
  "read_account pf v =
     (case v of
        JNull \<Rightarrow> Inl TypeError
      | _ \<Rightarrow>
          (case to_string pf (own_property v (ascii ''email'')) of
             Inl e \<Rightarrow> Inl e
           | Inr s \<Rightarrow> Inr \<lparr>email = s, cookie = own_property v (ascii ''cookie'')\<rparr>))"

text \<open>
  The test \<open>accounts.length === 0\<close> of line 215. On \<open>null\<close> it raises; a boolean or a number
  has no length; an object has the length it was given as a property, if any.
\<close>

fun length_is_zero :: "json \<Rightarrow> exn + bool" where
  "length_is_zero JNull = Inl TypeError"
| "length_is_zero (JBool b) = Inr False"
| "length_is_zero (JNum n) = Inr False"
| "length_is_zero (JStr s) = Inr (s = [])"
| "length_is_zero (JArr xs) = Inr (xs = [])"
| "length_is_zero (JObj ps) =
     Inr (own_property (JObj ps) (ascii ''length'') = Some (JNum (Finite 0)))"

text \<open>
  What \<open>for (const account of accounts)\<close> goes through: the entries of an array, the code
  points of a string (a surrogate pair is one of them), each as a string of its own. Any
  other value is not iterable, which is a \<open>TypeError\<close>. For an object line 220 comes first and
  prints its length, which can raise a \<open>TypeError\<close> as well.
\<close>

fun code_points :: "jsstring \<Rightarrow> jsstring list" where
  "code_points [] = []"
| "code_points [u] = [[u]]"
| "code_points (u # v # rest) =
     (if 55296 \<le> u \<and> u \<le> 56319 \<and> 56320 \<le> v \<and> v \<le> 57343
      then [u, v] # code_points rest
      else [u] # code_points (v # rest))"

fun entries :: "json \<Rightarrow> exn + json list" where
  "entries (JArr xs) = Inr xs"
| "entries (JStr s) = Inr (map JStr (code_points s))"
| "entries v = Inl TypeError"

text \<open>
  The loop of \<open>handleScheduled\<close> over the entries, each iteration inside its own
  \<open>try\<close>/\<open>catch\<close>.
\<close>

fun for_accounts :: "platform \<Rightarrow> jsstring option \<Rightarrow> json list \<Rightarrow> unit io" where
  "for_accounts pf webhookKey [] = io_return ()"
| "for_accounts pf webhookKey (entry # rest) =
     io_bind
       (io_catch
          (io_bind (io_lift (read_account pf entry))
             (\<lambda>account. processAccount pf account webhookKey))
          (\<lambda>error.
             io_bind (io_lift (read_account pf entry))
               (\<lambda>account.
                  io_bind (sendWeChatNotification pf webhookKey
                             (msg_account_error (email account)))
                    (\<lambda>_. io_return ()))))
       (\<lambda>_. for_accounts pf webhookKey rest)"

definition handleScheduled :: "platform \<Rightarrow> Env \<Rightarrow> unit io" where
  "handleScheduled pf env =
     io_bind (kv_get env (ascii ''cursor_accounts'')) (\<lambda>accountsJson.
       if falsy accountsJson then
         io_bind (sendWeChatNotification pf (WECHAT_WEBHOOK_KEY env) msg_config_missing)
           (\<lambda>_. io_return ())
       else
         (case accountsJson of
            None \<Rightarrow> io_return ()
          | Some stored \<Rightarrow>
              (case JSON_parse pf stored of
                 Inl error \<Rightarrow>
                   io_bind (sendWeChatNotification pf (WECHAT_WEBHOOK_KEY env) msg_config_malformed)
                     (\<lambda>_. io_return ())
               | Inr accounts \<Rightarrow>
                   io_bind (io_lift (length_is_zero accounts)) (\<lambda>empty.
                     if empty then io_return ()
                     else
                       io_bind (io_lift (entries accounts))
                         (\<lambda>listed. for_accounts pf (WECHAT_WEBHOOK_KEY env) listed)))))"

section \<open>The HTTP entry point\<close>

text \<open>
  Of the incoming request the handler reads the path of its URL only. A \<open>Response\<close> built
  without a status has status 200. \<open>ctx.waitUntil\<close> lets the run go on and keeps its error,
  if any, away from the handler.
\<close>

record Request =
  req_method :: jsstring
  req_pathname :: jsstring

record Response =
  status :: nat
  headers :: "(jsstring \<times> jsstring) list"
  body :: jsstring

definition new_Response :: "jsstring \<Rightarrow> (jsstring \<times> jsstring) list \<Rightarrow> Response" where
  "new_Response b hs = \<lparr>status = 200, headers = hs, body = b\<rparr>"

definition waitUntil :: "unit io \<Rightarrow> unit io" where
  "waitUntil m hist = (case m hist of (r, es) \<Rightarrow> (Inr (), es))"

definition json_headers :: "(jsstring \<times> jsstring) list" where
  "json_headers = [(ascii ''Content-Type'', ascii ''application/json'')]"

definition check_body :: json where
  "check_body = JObj
     [(ascii ''status'', JStr (ascii ''ok'')),
      (ascii ''message'',
       JStr [26816, 26597, 20219, 21153, 24050, 35302, 21457, 65292, 35831, 26597, 30475,
                26085, 24535])]"

definition health_body :: "jsstring \<Rightarrow> json" where
  "health_body now = JObj
     [(ascii ''status'', JStr (ascii ''healthy'')),
      (ascii ''timestamp'', JStr now)]"

definition info_body :: json where
  "info_body = JObj
     [(ascii ''name'', JStr (ascii ''Cursor '' @ [25353, 37327, 20184, 36153, 30417, 25511])),
      (ascii ''endpoints'', JObj
         [(ascii ''/check'', JStr [25163, 21160, 35302, 21457, 26816, 26597]),
          (ascii ''/health'', JStr [20581, 24247, 26816, 26597])])]"

definition fetch :: "platform \<Rightarrow> Request \<Rightarrow> Env \<Rightarrow> Response io" where
  "fetch pf request env =
     (if req_pathname request = ascii ''/check'' then
        io_bind (waitUntil (handleScheduled pf env))
          (\<lambda>_. io_return (new_Response (JSON_stringify pf check_body) json_headers))
      else if req_pathname request = ascii ''/health'' then
        io_bind (\<lambda>hist. (Inr (Date_toISOString pf hist), []))
          (\<lambda>now. io_return (new_Response (JSON_stringify pf (health_body now)) json_headers))
      else io_return (new_Response (JSON_stringify pf info_body) json_headers))"

section \<open>Observing a run\<close>

text \<open>
  The properties below count events of one kind among those a function added: calls of the
  notifier, requests to the disable endpoint, requests to the status endpoint, requests to
  the webhook, requests to either of the two billing endpoints.
\<close>

fun is_notify :: "event \<Rightarrow> bool" where
  "is_notify (NotifyCall k m) = True"
| "is_notify _ = False"

fun is_disable :: "event \<Rightarrow> bool" where
  "is_disable (Fetch (SetHardLimit c)) = True"
| "is_disable _ = False"

fun is_status :: "event \<Rightarrow> bool" where
  "is_status (Fetch (GetHardLimit c)) = True"
| "is_status _ = False"

fun is_webhook :: "event \<Rightarrow> bool" where
  "is_webhook (Fetch (WebhookSend k m)) = True"
| "is_webhook _ = False"

fun is_billing :: "event \<Rightarrow> bool" where
  "is_billing (Fetch (GetHardLimit c)) = True"
| "is_billing (Fetch (SetHardLimit c)) = True"
| "is_billing _ = False"

text \<open>The events of one call of the notifier: the call, and the request to the webhook when
  there is a key.\<close>

definition notify_events :: "jsstring option \<Rightarrow> jsstring \<Rightarrow> event list" where
  "notify_events k m =
     NotifyCall k m #
     (case k of None \<Rightarrow> [] | Some key \<Rightarrow> if key = [] then [] else [Fetch (WebhookSend key m)])"

text \<open>
  What is left of the events when the webhook key is taken out of them: the requests to the
  webhook go, and a call of the notifier keeps its message only. A world is blind to the key
  when the answers of the store and of the two billing endpoints depend on the earlier
  events through this view only.
\<close>

fun key_free :: "event \<Rightarrow> event list" where
  "key_free (KVGet k) = [KVGet k]"
| "key_free (Fetch (GetHardLimit c)) = [Fetch (GetHardLimit c)]"
| "key_free (Fetch (SetHardLimit c)) = [Fetch (SetHardLimit c)]"
| "key_free (Fetch (WebhookSend k m)) = []"
| "key_free (NotifyCall k m) = [NotifyCall None m]"

definition key_free_view :: "event list \<Rightarrow> event list" where
  "key_free_view hist = concat (map key_free hist)"

definition key_blind :: "platform \<Rightarrow> Env \<Rightarrow> bool" where
  "key_blind pf env =
     (\<forall>h h'. key_free_view h = key_free_view h' \<longrightarrow>
        (\<forall>c. get_hard_limit_api pf c h = get_hard_limit_api pf c h')
      \<and> (\<forall>c. set_hard_limit_api pf c h = set_hard_limit_api pf c h')
      \<and> (\<forall>k. CURSOR_KV env k h = CURSOR_KV env k h'))"

text \<open>The platform \<open>pf\<close> with a status endpoint that answers \<open>st\<close>.\<close>

definition with_status :: "platform \<Rightarrow> GetHardLimitResponse \<Rightarrow> platform" where
  "with_status pf st =
     pf\<lparr>get_hard_limit_api := \<lambda>c h. Responded \<lparr>resp_ok = True, resp_json = Inr st\<rparr>\<rparr>"

section \<open>A small world for examples\<close>

definition demo_account :: Account where
  "demo_account = \<lparr>email = ascii ''a@x.com'', cookie = Some (JStr (ascii ''c1''))\<rparr>"

definition entry_a :: json where
  "entry_a = JObj [(ascii ''email'', JStr (ascii ''a@x.com'')),
                   (ascii ''cookie'', JStr (ascii ''c1''))]"

definition entry_b :: json where
  "entry_b = JObj [(ascii ''email'', JStr (ascii ''b@x.com'')),
                   (ascii ''cookie'', JStr (ascii ''c2''))]"

definition demo_parse :: "jsstring \<Rightarrow> exn + json" where
  \<open>demo_parse s =
     (if s = ascii ''[{"email":"a@x.com","cookie":"c1"}]'' then Inr (JArr [entry_a])
      else if s = ascii ''[{"email":"a@x.com","cookie":"c1"},null,{"email":"b@x.com","cookie":"c2"}]''
        then Inr (JArr [entry_a, JNull, entry_b])
      else if s = ascii ''[]'' then Inr (JArr [])
      else if s = ascii ''null'' then Inr JNull
      else Inl SyntaxError)\<close>

definition demo_toString :: "jsnumber \<Rightarrow> jsstring" where
  "demo_toString n = (if n = Finite 50 then ascii ''50'' else ascii ''0'')"

definition demo_platform ::
  "GetHardLimitResponse outcome \<Rightarrow> unit outcome \<Rightarrow> WeChatResult outcome \<Rightarrow> platform" where
  "demo_platform st dis hook =
     \<lparr>get_hard_limit_api = (\<lambda>c h. st),
      set_hard_limit_api = (\<lambda>c h. dis),
      webhook_api = (\<lambda>k m h. hook),
      JSON_parse = demo_parse,
      JSON_stringify = (\<lambda>v. ascii ''{}''),
      Number_toString = demo_toString,
      Date_toISOString = (\<lambda>h. ascii ''2026-01-01T00:00:00.000Z'')\<rparr>"

definition answers :: "'a \<Rightarrow> 'a outcome" where
  "answers v = Responded \<lparr>resp_ok = True, resp_json = Inr v\<rparr>"

definition refuses :: "'a outcome" where
  "refuses = Responded \<lparr>resp_ok = False, resp_json = Inl SyntaxError\<rparr>"

definition limit_50 :: GetHardLimitResponse where
  "limit_50 = \<lparr>noUsageBasedAllowed = None, hardLimit = Some (Finite 50)\<rparr>"

definition accepted :: WeChatResult where
  "accepted = \<lparr>errcode = Finite 0, errmsg = ascii ''ok''\<rparr>"

definition demo_env :: "jsstring option \<Rightarrow> jsstring option \<Rightarrow> Env" where
  "demo_env stored key = \<lparr>CURSOR_KV = (\<lambda>k h. Inr stored), WECHAT_WEBHOOK_KEY = key\<rparr>"

definition billing_off :: GetHardLimitResponse where
  "billing_off = \<lparr>noUsageBasedAllowed = Some True, hardLimit = None\<rparr>"

section \<open>The three helpers never raise\<close>

lemma checkHardLimit_shape:
  "\<exists>r. checkHardLimit pf c hist = (Inr r, [Fetch (GetHardLimit c)])"
  by (auto simp: checkHardLimit_def io_catch_def io_bind_def outbound_def io_return_def
        io_lift_def
      split: outcome.splits sum.splits prod.splits)

lemma checkHardLimit_sentinel_iff:
  "fst (checkHardLimit pf c hist) = Inr None \<longleftrightarrow>
     (case get_hard_limit_api pf c hist of
        Rejected e \<Rightarrow> True
      | Responded r \<Rightarrow> \<not> resp_ok r \<or> isl (resp_json r))"
  by (auto simp: checkHardLimit_def io_catch_def io_bind_def outbound_def io_return_def
        io_lift_def
      split: outcome.splits sum.splits prod.splits)

lemma disableHardLimit_shape:
  "\<exists>b. disableHardLimit pf c hist = (Inr b, [Fetch (SetHardLimit c)])"
  by (auto simp: disableHardLimit_def io_catch_def io_bind_def outbound_def io_return_def
      split: outcome.splits sum.splits prod.splits)

lemma send_shape:
  "\<exists>b. sendWeChatNotification pf k m hist = (Inr b, notify_events k m)"
  by (auto simp: sendWeChatNotification_def notify_events_def io_catch_def io_bind_def
        outbound_def io_return_def io_lift_def emit_def
      split: outcome.splits sum.splits prod.splits option.splits)

lemma filter_notify_events [simp]:
  "filter is_notify (notify_events k m) = [NotifyCall k m]"
  "filter is_disable (notify_events k m) = []"
  "filter is_status (notify_events k m) = []"
  by (auto simp: notify_events_def split: option.splits)

lemma filter_webhook_notify_events:
  "k \<noteq> [] \<Longrightarrow> filter is_webhook (notify_events (Some k) m) = [Fetch (WebhookSend k m)]"
  by (simp add: notify_events_def)

lemma check_fst:
  "fst (checkHardLimit pf c hist) = Inr r \<Longrightarrow>
   checkHardLimit pf c hist = (Inr r, [Fetch (GetHardLimit c)])"
  using checkHardLimit_shape[of pf c hist] by auto

section \<open>What one account leads to\<close>

lemma processAccount_failed_events:
  assumes "fst (checkHardLimit pf (cookie account) hist) = Inr None"
  shows "processAccount pf account key hist =
           (Inr (), Fetch (GetHardLimit (cookie account))
                    # notify_events key (msg_check_failed (email account)))"
  using check_fst[OF assms]
    send_shape[of pf key "msg_check_failed (email account)"
                 "hist @ [Fetch (GetHardLimit (cookie account))]"]
  by (auto simp: processAccount_def io_bind_def io_return_def)

lemma processAccount_normal_events:
  assumes "fst (checkHardLimit pf (cookie account) hist) = Inr (Some st)"
    and "noUsageBasedAllowed st = Some True \<or> hardLimit st = None
         \<or> (\<exists>l. hardLimit st = Some l \<and> \<not> gt_zero l)"
  shows "processAccount pf account key hist = (Inr (), [Fetch (GetHardLimit (cookie account))])"
  using check_fst[OF assms(1)] assms(2)
  by (auto simp: processAccount_def io_bind_def io_return_def split: option.splits)

lemma processAccount_enabled_events:
  assumes "fst (checkHardLimit pf (cookie account) hist) = Inr (Some st)"
    and "noUsageBasedAllowed st \<noteq> Some True"
    and "hardLimit st = Some limit" and "gt_zero limit"
  shows "processAccount pf account key hist =
           (Inr (), [Fetch (GetHardLimit (cookie account)), Fetch (SetHardLimit (cookie account))]
              @ notify_events key
                  (if fst (disableHardLimit pf (cookie account)
                             (hist @ [Fetch (GetHardLimit (cookie account))])) = Inr True
                   then msg_disabled (email account) (Number_toString pf limit)
                   else msg_disable_failed (email account)))"
proof -
  let ?c = "cookie account"
  let ?h1 = "hist @ [Fetch (GetHardLimit ?c)]"
  obtain b where d: "disableHardLimit pf ?c ?h1 = (Inr b, [Fetch (SetHardLimit ?c)])"
    using disableHardLimit_shape by blast
  let ?m = "if b then msg_disabled (email account) (Number_toString pf limit)
            else msg_disable_failed (email account)"
  obtain b' where s: "sendWeChatNotification pf key ?m (?h1 @ [Fetch (SetHardLimit ?c)])
                        = (Inr b', notify_events key ?m)"
    using send_shape by blast
  show ?thesis
    using check_fst[OF assms(1)] assms(2-4) d s
    by (cases b) (auto simp: processAccount_def io_bind_def io_return_def)
qed

lemma processAccount_ok: "fst (processAccount pf account key hist) = Inr ()"
proof -
  obtain r where r: "fst (checkHardLimit pf (cookie account) hist) = Inr r"
    using checkHardLimit_shape[of pf "cookie account" hist] by auto
  show ?thesis
  proof (cases r)
    case None
    with r show ?thesis by (simp add: processAccount_failed_events)
  next
    case (Some st)
    show ?thesis
    proof (cases "noUsageBasedAllowed st = Some True \<or> hardLimit st = None
                   \<or> (\<exists>l. hardLimit st = Some l \<and> \<not> gt_zero l)")
      case True
      with r Some show ?thesis by (simp add: processAccount_normal_events)
    next
      case False
      then obtain l where "noUsageBasedAllowed st \<noteq> Some True" "hardLimit st = Some l" "gt_zero l"
        by auto
      with r Some show ?thesis by (simp add: processAccount_enabled_events)
    qed
  qed
qed

text \<open>Every processed account shows as a request to the status endpoint, first of all.\<close>

lemma processAccount_starts_with_status:
  "\<exists>es. snd (processAccount pf account key hist) = Fetch (GetHardLimit (cookie account)) # es"
proof -
  obtain r where "checkHardLimit pf (cookie account) hist
                    = (Inr r, [Fetch (GetHardLimit (cookie account))])"
    using checkHardLimit_shape by blast
  then show ?thesis
    by (simp add: processAccount_def io_bind_def split_beta)
qed

lemma last_msg_disabled: "last (msg_disabled e l) = 38381"
  by (simp add: msg_disabled_def)

lemma last_msg_disable_failed: "last (msg_disable_failed e) = 65281"
  by (simp add: msg_disable_failed_def)

lemma msgs_differ: "msg_disabled e l \<noteq> msg_disable_failed e'"
  using last_msg_disabled[of e l] last_msg_disable_failed[of e'] by auto

lemma config_msgs_differ: "msg_config_malformed \<noteq> msg_config_missing"
  by (simp add: msg_config_malformed_def msg_config_missing_def)

lemma sublist_limit: "sublist l (msg_disabled e l)"
  unfolding msg_disabled_def sublist_def by (metis append.assoc)

section \<open>Claims about one account\<close>

text \<open>
  Claim C1, as amended. When the status query returns a result in which
  \<open>noUsageBasedAllowed\<close> is absent or false and \<open>hardLimit\<close> is present and greater than
  zero, \<open>processAccount\<close> makes exactly one request to the disable endpoint for that account
  and sends exactly one notification: after the status request and the disable request comes
  one call of the notifier, which with a key makes exactly one request to the webhook, and
  nothing else. The message is the "disabled" one when the disable call returned true and the
  "disabling failed" one otherwise; the two are never the same text, and the "disabled" one
  contains the printed limit.
\<close>

theorem processAccount_disables_and_notifies:
  assumes "fst (checkHardLimit pf (cookie account) hist) = Inr (Some st)"
    and "noUsageBasedAllowed st = None \<or> noUsageBasedAllowed st = Some False"
    and "hardLimit st = Some limit" and "gt_zero limit"
  shows "(let sent = (if fst (disableHardLimit pf (cookie account)
                                (hist @ [Fetch (GetHardLimit (cookie account))])) = Inr True
                      then msg_disabled (email account) (Number_toString pf limit)
                      else msg_disable_failed (email account))
          in processAccount pf account key hist
               = (Inr (),
                  [Fetch (GetHardLimit (cookie account)), Fetch (SetHardLimit (cookie account))]
                  @ notify_events key sent)
           \<and> filter is_disable (snd (processAccount pf account key hist))
               = [Fetch (SetHardLimit (cookie account))]
           \<and> filter is_notify (snd (processAccount pf account key hist))
               = [NotifyCall key sent]
           \<and> (\<forall>k. key = Some k \<and> k \<noteq> [] \<longrightarrow>
                 filter is_webhook (snd (processAccount pf account key hist))
                   = [Fetch (WebhookSend k sent)]))
       \<and> sublist (Number_toString pf limit)
                 (msg_disabled (email account) (Number_toString pf limit))
       \<and> msg_disabled (email account) (Number_toString pf limit)
           \<noteq> msg_disable_failed (email account)"
proof -
  have "noUsageBasedAllowed st \<noteq> Some True"
    using assms(2) by auto
  from processAccount_enabled_events[OF assms(1) this assms(3,4), of key]
  show ?thesis
    by (auto simp: Let_def sublist_limit msgs_differ filter_webhook_notify_events)
qed

text \<open>The example of the specification: account \<open>a@x.com\<close> with cookie \<open>c1\<close>, status
  \<open>{hardLimit: 50}\<close>, the disable call succeeds; the webhook key is \<open>K\<close>.\<close>

theorem processAccount_disables_and_notifies_witness:
  "fst (checkHardLimit (demo_platform (answers limit_50) (answers ()) (answers accepted))
          (cookie demo_account) []) = Inr (Some limit_50)
   \<and> noUsageBasedAllowed limit_50 = None
   \<and> hardLimit limit_50 = Some (Finite 50)
   \<and> gt_zero (Finite 50)
   \<and> processAccount (demo_platform (answers limit_50) (answers ()) (answers accepted))
        demo_account (Some (ascii ''K'')) []
       = (Inr (),
          [Fetch (GetHardLimit (Some (JStr (ascii ''c1'')))),
           Fetch (SetHardLimit (Some (JStr (ascii ''c1'')))),
           NotifyCall (Some (ascii ''K'')) (msg_disabled (ascii ''a@x.com'') (ascii ''50'')),
           Fetch (WebhookSend (ascii ''K'') (msg_disabled (ascii ''a@x.com'') (ascii ''50'')))])"
proof -
  let ?P = "demo_platform (answers limit_50) (answers ()) (answers accepted)"
  have c: "fst (checkHardLimit ?P (cookie demo_account) []) = Inr (Some limit_50)"
    by (simp add: checkHardLimit_def io_catch_def io_bind_def outbound_def io_return_def
          io_lift_def demo_platform_def answers_def)
  have d: "fst (disableHardLimit ?P (cookie demo_account)
                  ([] @ [Fetch (GetHardLimit (cookie demo_account))])) = Inr True"
    by (simp add: disableHardLimit_def io_catch_def io_bind_def outbound_def io_return_def
          demo_platform_def answers_def)
  have n: "noUsageBasedAllowed limit_50 = None \<or> noUsageBasedAllowed limit_50 = Some False"
    and l: "hardLimit limit_50 = Some (Finite 50)" and g: "gt_zero (Finite 50)"
    by (simp_all add: limit_50_def)
  have t: "Number_toString ?P (Finite 50) = ascii ''50''"
    by (simp add: demo_platform_def demo_toString_def)
  have k: "ascii ''K'' \<noteq> []"
    by (simp add: ascii_def)
  show ?thesis
    using processAccount_disables_and_notifies[OF c n l g, of "Some (ascii ''K'')"] c d l g t k
    by (simp add: Let_def demo_account_def limit_50_def notify_events_def)
qed

text \<open>
  Claim C1 as stated asks for the limit in the notification whatever the disable call
  returned. With the same account and status and a disable endpoint that answers with a
  non-success status, the one notification is the "disabling failed" message, and \<open>50\<close> does
  not occur in it.
\<close>

theorem failure_notification_omits_limit:
  "fst (checkHardLimit (demo_platform (answers limit_50) refuses (answers accepted))
          (cookie demo_account) []) = Inr (Some limit_50)
   \<and> noUsageBasedAllowed limit_50 = None
   \<and> hardLimit limit_50 = Some (Finite 50)
   \<and> gt_zero (Finite 50)
   \<and> filter is_notify
        (snd (processAccount (demo_platform (answers limit_50) refuses (answers accepted))
                demo_account (Some (ascii ''K'')) []))
       = [NotifyCall (Some (ascii ''K'')) (msg_disable_failed (ascii ''a@x.com''))]
   \<and> Number_toString (demo_platform (answers limit_50) refuses (answers accepted)) (Finite 50)
       = ascii ''50''
   \<and> \<not> sublist (ascii ''50'') (msg_disable_failed (ascii ''a@x.com''))"
proof -
  let ?P = "demo_platform (answers limit_50) refuses (answers accepted)"
  have c: "fst (checkHardLimit ?P (cookie demo_account) []) = Inr (Some limit_50)"
    by (simp add: checkHardLimit_def io_catch_def io_bind_def outbound_def io_return_def
          io_lift_def demo_platform_def answers_def)
  have d: "fst (disableHardLimit ?P (cookie demo_account)
                  ([] @ [Fetch (GetHardLimit (cookie demo_account))])) = Inr False"
    by (simp add: disableHardLimit_def io_catch_def io_bind_def outbound_def io_return_def
          demo_platform_def refuses_def)
  have n: "noUsageBasedAllowed limit_50 \<noteq> Some True"
    and l: "hardLimit limit_50 = Some (Finite 50)" and g: "gt_zero (Finite 50)"
    by (simp_all add: limit_50_def)
  have t: "Number_toString ?P (Finite 50) = ascii ''50''"
    by (simp add: demo_platform_def demo_toString_def)
  have s: "\<not> sublist (ascii ''50'') (msg_disable_failed (ascii ''a@x.com''))"
    by (simp add: msg_disable_failed_def ascii_def sublist_code)
  show ?thesis
    using processAccount_enabled_events[OF c n l g, of "Some (ascii ''K'')"] c d l g t s
    by (simp add: demo_account_def limit_50_def)
qed

text \<open>
  Claim C2. When the status query returns a result with \<open>noUsageBasedAllowed\<close> true, whatever
  \<open>hardLimit\<close> is, or with a \<open>hardLimit\<close> of zero, \<open>processAccount\<close> does nothing after
  the status request: no request to the disable endpoint and no call of the notifier.
\<close>

theorem processAccount_leaves_alone:
  assumes "fst (checkHardLimit pf (cookie account) hist) = Inr (Some st)"
    and "noUsageBasedAllowed st = Some True \<or> hardLimit st = Some (Finite 0)"
  shows "processAccount pf account key hist = (Inr (), [Fetch (GetHardLimit (cookie account))])
       \<and> filter is_disable (snd (processAccount pf account key hist)) = []
       \<and> filter is_notify (snd (processAccount pf account key hist)) = []"
proof -
  have "noUsageBasedAllowed st = Some True \<or> hardLimit st = None
         \<or> (\<exists>l. hardLimit st = Some l \<and> \<not> gt_zero l)"
    using assms(2) by auto
  from processAccount_normal_events[OF assms(1) this, of key]
  show ?thesis by simp
qed

text \<open>A status with the flag true and a limit of 50, and a status with a limit of zero.\<close>

theorem processAccount_leaves_alone_witness:
  "fst (checkHardLimit
          (demo_platform (answers \<lparr>noUsageBasedAllowed = Some True, hardLimit = Some (Finite 50)\<rparr>)
             (answers ()) (answers accepted))
          (cookie demo_account) [])
     = Inr (Some \<lparr>noUsageBasedAllowed = Some True, hardLimit = Some (Finite 50)\<rparr>)
   \<and> processAccount
        (demo_platform (answers \<lparr>noUsageBasedAllowed = Some True, hardLimit = Some (Finite 50)\<rparr>)
           (answers ()) (answers accepted))
        demo_account (Some (ascii ''K'')) []
     = (Inr (), [Fetch (GetHardLimit (Some (JStr (ascii ''c1''))))])
   \<and> fst (checkHardLimit
          (demo_platform (answers \<lparr>noUsageBasedAllowed = Some False, hardLimit = Some (Finite 0)\<rparr>)
             (answers ()) (answers accepted))
          (cookie demo_account) [])
     = Inr (Some \<lparr>noUsageBasedAllowed = Some False, hardLimit = Some (Finite 0)\<rparr>)
   \<and> processAccount
        (demo_platform (answers \<lparr>noUsageBasedAllowed = Some False, hardLimit = Some (Finite 0)\<rparr>)
           (answers ()) (answers accepted))
        demo_account (Some (ascii ''K'')) []
     = (Inr (), [Fetch (GetHardLimit (Some (JStr (ascii ''c1''))))])"
proof -
  let ?s1 = "\<lparr>noUsageBasedAllowed = Some True, hardLimit = Some (Finite 50)\<rparr>"
  let ?s2 = "\<lparr>noUsageBasedAllowed = Some False, hardLimit = Some (Finite 0)\<rparr>"
  have c: "fst (checkHardLimit (demo_platform (answers s) (answers ()) (answers accepted))
                  (cookie demo_account) []) = Inr (Some s)" for s
    by (simp add: checkHardLimit_def io_catch_def io_bind_def outbound_def io_return_def
          io_lift_def demo_platform_def answers_def)
  have h1: "noUsageBasedAllowed ?s1 = Some True \<or> hardLimit ?s1 = Some (Finite 0)"
    and h2: "noUsageBasedAllowed ?s2 = Some True \<or> hardLimit ?s2 = Some (Finite 0)"
    by simp_all
  show ?thesis
    using processAccount_leaves_alone[OF c h1, of "Some (ascii ''K'')"]
      processAccount_leaves_alone[OF c h2, of "Some (ascii ''K'')"] c
    by (simp add: demo_account_def)
qed

text \<open>
  Claim C3. When \<open>checkHardLimit\<close> returns its failure value \<open>null\<close> (by
  \<open>checkHardLimit_sentinel_iff\<close>: the request was rejected, the response was not \<open>ok\<close>, or
  its body did not parse), \<open>processAccount\<close> sends exactly one notification, with the
  message that the cookie may have expired, and makes no request to the disable endpoint:
  after the status request comes one call of the notifier, which with a key makes exactly one
  request to the webhook, and nothing else.
\<close>

theorem processAccount_reports_failed_check:
  assumes "fst (checkHardLimit pf (cookie account) hist) = Inr None"
  shows "processAccount pf account key hist
           = (Inr (), Fetch (GetHardLimit (cookie account))
                      # notify_events key (msg_check_failed (email account)))
       \<and> filter is_notify (snd (processAccount pf account key hist))
           = [NotifyCall key (msg_check_failed (email account))]
       \<and> (\<forall>k. key = Some k \<and> k \<noteq> [] \<longrightarrow>
             filter is_webhook (snd (processAccount pf account key hist))
               = [Fetch (WebhookSend k (msg_check_failed (email account)))])
       \<and> filter is_disable (snd (processAccount pf account key hist)) = []"
  using processAccount_failed_events[OF assms, of key]
  by (auto simp: filter_webhook_notify_events)

text \<open>A status request that fails on the network, with the webhook key \<open>K\<close>.\<close>

theorem processAccount_reports_failed_check_witness:
  "fst (checkHardLimit (demo_platform (Rejected NetworkError) (answers ()) (answers accepted))
          (cookie demo_account) []) = Inr None
   \<and> processAccount (demo_platform (Rejected NetworkError) (answers ()) (answers accepted))
        demo_account (Some (ascii ''K'')) []
       = (Inr (),
          [Fetch (GetHardLimit (Some (JStr (ascii ''c1'')))),
           NotifyCall (Some (ascii ''K'')) (msg_check_failed (ascii ''a@x.com'')),
           Fetch (WebhookSend (ascii ''K'') (msg_check_failed (ascii ''a@x.com'')))])"
proof -
  let ?P = "demo_platform (Rejected NetworkError) (answers ()) (answers accepted)"
  have c: "fst (checkHardLimit ?P (cookie demo_account) []) = Inr None"
    by (simp add: checkHardLimit_def io_catch_def io_bind_def outbound_def io_return_def
          demo_platform_def)
  have k: "ascii ''K'' \<noteq> []"
    by (simp add: ascii_def)
  show ?thesis
    using processAccount_reports_failed_check[OF c, of "Some (ascii ''K'')"] c k
    by (simp add: demo_account_def notify_events_def)
qed

section \<open>What a run leads to\<close>

lemma for_accounts_unreadable:
  "read_account pf entry = Inl e \<Longrightarrow>
   for_accounts pf key (entry # rest) hist = (Inl e, [])"
  by (simp add: io_bind_def io_catch_def io_lift_def)

lemma for_accounts_readable:
  assumes "read_account pf entry = Inr account"
  shows "for_accounts pf key (entry # rest) hist =
           (fst (for_accounts pf key rest (hist @ snd (processAccount pf account key hist))),
            snd (processAccount pf account key hist)
            @ snd (for_accounts pf key rest (hist @ snd (processAccount pf account key hist))))"
proof -
  obtain es where "processAccount pf account key hist = (Inr (), es)"
    using processAccount_ok[of pf account key hist]
    by (cases "processAccount pf account key hist") simp
  with assms show ?thesis
    by (simp add: io_bind_def io_catch_def io_lift_def split_beta)
qed

text \<open>Entries that can all be read are all processed, and the loop ends without an error.\<close>

lemma for_accounts_all_readable:
  "(\<And>entry. entry \<in> set listed \<Longrightarrow> \<exists>account. read_account pf entry = Inr account) \<Longrightarrow>
   fst (for_accounts pf key listed hist) = Inr ()"
proof (induction listed arbitrary: hist)
  case Nil
  show ?case by (simp add: io_return_def)
next
  case (Cons entry rest)
  obtain account where a: "read_account pf entry = Inr account"
    using Cons.prems[of entry] by auto
  have "fst (for_accounts pf key rest h) = Inr ()" for h
    using Cons.IH[of h] Cons.prems by simp
  then show ?case
    by (simp add: for_accounts_readable[OF a] del: for_accounts.simps)
qed

lemma handleScheduled_missing_events:
  assumes "CURSOR_KV env (ascii ''cursor_accounts'') hist = Inr v" and "falsy v"
  shows "handleScheduled pf env hist =
           (Inr (), KVGet (ascii ''cursor_accounts'')
                    # notify_events (WECHAT_WEBHOOK_KEY env) msg_config_missing)"
  using assms send_shape[of pf "WECHAT_WEBHOOK_KEY env" msg_config_missing
                           "hist @ [KVGet (ascii ''cursor_accounts'')]"]
  by (auto simp: handleScheduled_def io_bind_def io_return_def kv_get_def)

lemma handleScheduled_malformed_events:
  assumes "CURSOR_KV env (ascii ''cursor_accounts'') hist = Inr (Some stored)"
    and "stored \<noteq> []" and "JSON_parse pf stored = Inl err"
  shows "handleScheduled pf env hist =
           (Inr (), KVGet (ascii ''cursor_accounts'')
                    # notify_events (WECHAT_WEBHOOK_KEY env) msg_config_malformed)"
  using assms send_shape[of pf "WECHAT_WEBHOOK_KEY env" msg_config_malformed
                           "hist @ [KVGet (ascii ''cursor_accounts'')]"]
  by (auto simp: handleScheduled_def io_bind_def io_return_def kv_get_def)

section \<open>Claims about a run\<close>

text \<open>
  Claim C4, as amended. When the stored value is there and not empty and \<open>JSON.parse\<close>
  raises on it, \<open>handleScheduled\<close> calls the notifier exactly once, with the
  malformed-configuration message, which is not the text of the missing-configuration
  message; it makes no request to a billing endpoint, so no account is processed
  (\<open>processAccount_starts_with_status\<close>), and it returns without an error.
\<close>

theorem handleScheduled_malformed_configuration:
  assumes "CURSOR_KV env (ascii ''cursor_accounts'') hist = Inr (Some stored)"
    and "stored \<noteq> []" and "JSON_parse pf stored = Inl err"
  shows "handleScheduled pf env hist
           = (Inr (), KVGet (ascii ''cursor_accounts'')
                      # notify_events (WECHAT_WEBHOOK_KEY env) msg_config_malformed)
       \<and> filter is_notify (snd (handleScheduled pf env hist))
           = [NotifyCall (WECHAT_WEBHOOK_KEY env) msg_config_malformed]
       \<and> filter is_billing (snd (handleScheduled pf env hist)) = []
       \<and> msg_config_malformed \<noteq> msg_config_missing"
  using handleScheduled_malformed_events[OF assms]
  by (auto simp: config_msgs_differ notify_events_def split: option.splits)

text \<open>A stored value that is not JSON.\<close>

theorem handleScheduled_malformed_configuration_witness:
  "CURSOR_KV (demo_env (Some (ascii ''{broken'')) (Some (ascii ''K''))) (ascii ''cursor_accounts'') []
     = Inr (Some (ascii ''{broken''))
   \<and> ascii ''{broken'' \<noteq> []
   \<and> JSON_parse (demo_platform (answers limit_50) (answers ()) (answers accepted)) (ascii ''{broken'')
       = Inl SyntaxError
   \<and> handleScheduled (demo_platform (answers limit_50) (answers ()) (answers accepted))
        (demo_env (Some (ascii ''{broken'')) (Some (ascii ''K''))) []
       = (Inr (), [KVGet (ascii ''cursor_accounts''),
                   NotifyCall (Some (ascii ''K'')) msg_config_malformed,
                   Fetch (WebhookSend (ascii ''K'') msg_config_malformed)])"
proof -
  let ?P = "demo_platform (answers limit_50) (answers ()) (answers accepted)"
  let ?E = "demo_env (Some (ascii ''{broken'')) (Some (ascii ''K''))"
  have kv: "CURSOR_KV ?E (ascii ''cursor_accounts'') [] = Inr (Some (ascii ''{broken''))"
    by (simp add: demo_env_def)
  have ne: "ascii ''{broken'' \<noteq> []"
    by (simp add: ascii_def)
  have bad: "JSON_parse ?P (ascii ''{broken'') = Inl SyntaxError"
    by (simp add: demo_platform_def demo_parse_def ascii_def)
  have key: "WECHAT_WEBHOOK_KEY ?E = Some (ascii ''K'')" "ascii ''K'' \<noteq> []"
    by (simp_all add: demo_env_def ascii_def)
  show ?thesis
    using handleScheduled_malformed_configuration[OF kv ne bad] kv ne bad key
    by (simp add: notify_events_def)
qed

text \<open>
  Claim C4 as stated speaks of every stored value that does not parse as a list of accounts.
  The stored text \<open>null\<close> is JSON and not a list: \<open>JSON.parse\<close> returns, the run ends with
  a \<open>TypeError\<close> that leaves \<open>handleScheduled\<close>, and the notifier is not called.
\<close>

theorem handleScheduled_null_configuration:
  "CURSOR_KV (demo_env (Some (ascii ''null'')) (Some (ascii ''K''))) (ascii ''cursor_accounts'') []
     = Inr (Some (ascii ''null''))
   \<and> ascii ''null'' \<noteq> []
   \<and> JSON_parse (demo_platform (answers limit_50) (answers ()) (answers accepted)) (ascii ''null'')
       = Inr JNull
   \<and> handleScheduled (demo_platform (answers limit_50) (answers ()) (answers accepted))
        (demo_env (Some (ascii ''null'')) (Some (ascii ''K''))) []
       = (Inl TypeError, [KVGet (ascii ''cursor_accounts'')])"
proof -
  let ?P = "demo_platform (answers limit_50) (answers ()) (answers accepted)"
  have ne: "ascii ''null'' \<noteq> []"
    by (simp add: ascii_def)
  have j: "JSON_parse ?P (ascii ''null'') = Inr JNull"
    by (simp add: demo_platform_def demo_parse_def ascii_def)
  show ?thesis
    using ne j
    by (simp add: handleScheduled_def kv_get_def io_bind_def io_lift_def demo_env_def)
qed

text \<open>
  Claim C5 asks that an error raised while one account is processed be caught by the loop,
  be reported in one notification naming the account, and leave the rest of the list to be
  processed. The loop has the \<open>try\<close>/\<open>catch\<close> for it, but its \<open>catch\<close> block starts by
  printing \<open>account.email\<close> again (line 227). With the stored list
  \<open>[a, null, b]\<close>, a world in which billing is off for every account and the webhook key
  \<open>K\<close>: the status of \<open>a\<close> is requested; on \<open>null\<close> line 142 raises, the \<open>catch\<close> block
  raises in its turn, outside every \<open>try\<close>; the run ends with that \<open>TypeError\<close>, the notifier
  is never called and the status of \<open>b\<close> is never requested.
\<close>

theorem null_entry_aborts_run:
  \<open>JSON_parse (demo_platform (answers billing_off) (answers ()) (answers accepted))
     (ascii ''[{"email":"a@x.com","cookie":"c1"},null,{"email":"b@x.com","cookie":"c2"}]'')
     = Inr (JArr [entry_a, JNull, entry_b])
   \<and> read_account (demo_platform (answers billing_off) (answers ()) (answers accepted)) entry_b
     = Inr \<lparr>email = ascii ''b@x.com'', cookie = Some (JStr (ascii ''c2''))\<rparr>
   \<and> handleScheduled (demo_platform (answers billing_off) (answers ()) (answers accepted))
        (demo_env
           (Some (ascii ''[{"email":"a@x.com","cookie":"c1"},null,{"email":"b@x.com","cookie":"c2"}]''))
           (Some (ascii ''K''))) []
     = (Inl TypeError,
        [KVGet (ascii ''cursor_accounts''), Fetch (GetHardLimit (Some (JStr (ascii ''c1''))))])\<close>
proof -
  let ?P = "demo_platform (answers billing_off) (answers ()) (answers accepted)"
  let ?T = \<open>ascii ''[{"email":"a@x.com","cookie":"c1"},null,{"email":"b@x.com","cookie":"c2"}]''\<close>
  have j: "JSON_parse ?P ?T = Inr (JArr [entry_a, JNull, entry_b])"
    by (simp add: demo_platform_def demo_parse_def ascii_def)
  have ne: "?T \<noteq> []"
    by (simp add: ascii_def)
  have a: "read_account ?P entry_a = Inr demo_account"
    by (simp add: read_account_def entry_a_def demo_account_def ascii_def)
  have b: "read_account ?P entry_b
             = Inr \<lparr>email = ascii ''b@x.com'', cookie = Some (JStr (ascii ''c2''))\<rparr>"
    by (simp add: read_account_def entry_b_def ascii_def)
  have n: "read_account ?P JNull = Inl TypeError"
    by (simp add: read_account_def)
  have c: "fst (checkHardLimit ?P (cookie demo_account) h) = Inr (Some billing_off)" for h
    by (simp add: checkHardLimit_def io_catch_def io_bind_def outbound_def io_return_def
          io_lift_def demo_platform_def answers_def)
  have off: "noUsageBasedAllowed billing_off = Some True \<or> hardLimit billing_off = None
               \<or> (\<exists>l. hardLimit billing_off = Some l \<and> \<not> gt_zero l)"
    by (simp add: billing_off_def)
  have p: "processAccount ?P demo_account k h
             = (Inr (), [Fetch (GetHardLimit (Some (JStr (ascii ''c1''))))])" for k h
    using processAccount_normal_events[OF c off, of k h] by (simp add: demo_account_def)
  have loop: "for_accounts ?P k [entry_a, JNull, entry_b] h
                = (Inl TypeError, [Fetch (GetHardLimit (Some (JStr (ascii ''c1''))))])" for k h
    using for_accounts_readable[OF a, of k "[JNull, entry_b]" h]
      for_accounts_unreadable[OF n, of k "[entry_b]"]
    by (simp add: p del: for_accounts.simps)
  show ?thesis
    using j ne b
    by (simp add: handleScheduled_def kv_get_def io_bind_def io_lift_def demo_env_def loop
          del: for_accounts.simps)
qed

text \<open>
  Claim C6. When the store has no value under the key, or an empty one, \<open>handleScheduled\<close>
  calls the notifier exactly once, with the missing-configuration message, makes no request
  to the status endpoint or the disable endpoint, and returns.
\<close>

theorem handleScheduled_missing_configuration:
  assumes "CURSOR_KV env (ascii ''cursor_accounts'') hist = Inr stored" and "falsy stored"
  shows "handleScheduled pf env hist
           = (Inr (), KVGet (ascii ''cursor_accounts'')
                      # notify_events (WECHAT_WEBHOOK_KEY env) msg_config_missing)
       \<and> filter is_notify (snd (handleScheduled pf env hist))
           = [NotifyCall (WECHAT_WEBHOOK_KEY env) msg_config_missing]
       \<and> filter is_billing (snd (handleScheduled pf env hist)) = []"
  using handleScheduled_missing_events[OF assms]
  by (auto simp: notify_events_def split: option.splits)

text \<open>An absent entry, and an entry that is the empty string.\<close>

theorem handleScheduled_missing_configuration_witness:
  "CURSOR_KV (demo_env None (Some (ascii ''K''))) (ascii ''cursor_accounts'') [] = Inr None
   \<and> falsy None
   \<and> handleScheduled (demo_platform (answers limit_50) (answers ()) (answers accepted))
        (demo_env None (Some (ascii ''K''))) []
       = (Inr (), [KVGet (ascii ''cursor_accounts''),
                   NotifyCall (Some (ascii ''K'')) msg_config_missing,
                   Fetch (WebhookSend (ascii ''K'') msg_config_missing)])
   \<and> CURSOR_KV (demo_env (Some []) None) (ascii ''cursor_accounts'') [] = Inr (Some [])
   \<and> falsy (Some [])
   \<and> handleScheduled (demo_platform (answers limit_50) (answers ()) (answers accepted))
        (demo_env (Some []) None) []
       = (Inr (), [KVGet (ascii ''cursor_accounts''), NotifyCall None msg_config_missing])"
proof -
  let ?P = "demo_platform (answers limit_50) (answers ()) (answers accepted)"
  have kv1: "CURSOR_KV (demo_env None (Some (ascii ''K''))) (ascii ''cursor_accounts'') [] = Inr None"
    and kv2: "CURSOR_KV (demo_env (Some []) None) (ascii ''cursor_accounts'') [] = Inr (Some [])"
    by (simp_all add: demo_env_def)
  have f1: "falsy None" and f2: "falsy (Some [])"
    by simp_all
  have key: "WECHAT_WEBHOOK_KEY (demo_env None (Some (ascii ''K''))) = Some (ascii ''K'')"
    "ascii ''K'' \<noteq> []" "WECHAT_WEBHOOK_KEY (demo_env (Some []) None) = None"
    by (simp_all add: demo_env_def ascii_def)
  show ?thesis
    using handleScheduled_missing_configuration[OF kv1 f1, of ?P]
      handleScheduled_missing_configuration[OF kv2 f2, of ?P] kv1 kv2 key
    by (simp add: notify_events_def)
qed

section \<open>Claim about the notifier\<close>

text \<open>
  Claim C7. \<open>sendWeChatNotification\<close> never raises. With a key that is missing or empty it
  returns false and makes no request. With any other key it returns true exactly when the
  webhook responds, the response is \<open>ok\<close>, its body parses and its \<open>errcode\<close> is 0.
\<close>

theorem sendWeChatNotification_contract:
  "(\<exists>b. fst (sendWeChatNotification pf key message hist) = Inr b)
   \<and> (falsy key \<longrightarrow>
        sendWeChatNotification pf key message hist = (Inr False, [NotifyCall key message]))
   \<and> (\<forall>k. key = Some k \<and> k \<noteq> [] \<longrightarrow>
        (fst (sendWeChatNotification pf key message hist) = Inr True)
        = (\<exists>r res. webhook_api pf k message (hist @ [NotifyCall key message]) = Responded r
              \<and> resp_ok r \<and> resp_json r = Inr res \<and> errcode res = Finite 0))"
  by (cases key)
     (auto simp: sendWeChatNotification_def io_catch_def io_bind_def outbound_def io_return_def
                 io_lift_def emit_def
           split: outcome.splits sum.splits prod.splits option.splits)

text \<open>No key; a key and a webhook that accepts; a key and a webhook that answers with a
  non-success status.\<close>

theorem sendWeChatNotification_contract_witness:
  "falsy None
   \<and> sendWeChatNotification (demo_platform (answers limit_50) (answers ()) (answers accepted))
        None (ascii ''hello'') []
       = (Inr False, [NotifyCall None (ascii ''hello'')])
   \<and> ascii ''K'' \<noteq> []
   \<and> fst (sendWeChatNotification (demo_platform (answers limit_50) (answers ()) (answers accepted))
             (Some (ascii ''K'')) (ascii ''hello'') []) = Inr True
   \<and> fst (sendWeChatNotification (demo_platform (answers limit_50) (answers ()) refuses)
             (Some (ascii ''K'')) (ascii ''hello'') []) \<noteq> Inr True"
proof -
  let ?P = "demo_platform (answers limit_50) (answers ()) (answers accepted)"
  let ?Q = "demo_platform (answers limit_50) (answers ()) refuses"
  have k: "ascii ''K'' \<noteq> []"
    by (simp add: ascii_def)
  have yes: "\<exists>r res. webhook_api ?P (ascii ''K'') (ascii ''hello'')
                     ([] @ [NotifyCall (Some (ascii ''K'')) (ascii ''hello'')]) = Responded r
                 \<and> resp_ok r \<and> resp_json r = Inr res \<and> errcode res = Finite 0"
    by (simp add: demo_platform_def answers_def accepted_def)
  have no: "\<not> (\<exists>r res. webhook_api ?Q (ascii ''K'') (ascii ''hello'')
                     ([] @ [NotifyCall (Some (ascii ''K'')) (ascii ''hello'')]) = Responded r
                 \<and> resp_ok r \<and> resp_json r = Inr res \<and> errcode res = Finite 0)"
    by (simp add: demo_platform_def refuses_def)
  show ?thesis
    using sendWeChatNotification_contract[of ?P None "ascii ''hello''" "[]"]
      sendWeChatNotification_contract[of ?P "Some (ascii ''K'')" "ascii ''hello''" "[]"]
      sendWeChatNotification_contract[of ?Q "Some (ascii ''K'')" "ascii ''hello''" "[]"]
      k yes no
    by auto
qed

section \<open>Absent fields\<close>

lemma check_with_status:
  "checkHardLimit (with_status pf st) c hist = (Inr (Some st), [Fetch (GetHardLimit c)])"
  by (simp add: with_status_def checkHardLimit_def io_catch_def io_bind_def outbound_def
      io_return_def io_lift_def)

lemma disable_with_status:
  "disableHardLimit (with_status pf st) c hist = disableHardLimit pf c hist"
  by (simp add: with_status_def disableHardLimit_def io_catch_def io_bind_def outbound_def)

lemma toString_with_status: "Number_toString (with_status pf st) = Number_toString pf"
  by (simp add: with_status_def)

lemma processAccount_same_decision:
  assumes "(noUsageBasedAllowed st = Some True) = (noUsageBasedAllowed st' = Some True)"
    and "(case hardLimit st of None \<Rightarrow> None | Some l \<Rightarrow> if gt_zero l then Some l else None)
       = (case hardLimit st' of None \<Rightarrow> None | Some l \<Rightarrow> if gt_zero l then Some l else None)"
  shows "snd (processAccount (with_status pf st) account key hist)
       = snd (processAccount (with_status pf st') account key hist)"
proof (cases "noUsageBasedAllowed st = Some True \<or> hardLimit st = None
               \<or> (\<exists>l. hardLimit st = Some l \<and> \<not> gt_zero l)")
  case True
  then have "noUsageBasedAllowed st' = Some True \<or> hardLimit st' = None
               \<or> (\<exists>l. hardLimit st' = Some l \<and> \<not> gt_zero l)"
    using assms by (auto split: option.splits if_splits)
  with True show ?thesis
    using processAccount_normal_events[of "with_status pf st" account hist st key]
      processAccount_normal_events[of "with_status pf st'" account hist st' key]
    by (simp add: check_with_status)
next
  case False
  then obtain l where l: "noUsageBasedAllowed st \<noteq> Some True" "hardLimit st = Some l" "gt_zero l"
    by auto
  then have l': "noUsageBasedAllowed st' \<noteq> Some True" "hardLimit st' = Some l"
    using assms by (auto split: option.splits if_splits)
  show ?thesis
    using processAccount_enabled_events[of "with_status pf st" account hist st l key]
      processAccount_enabled_events[of "with_status pf st'" account hist st' l key] l l'
    by (simp add: check_with_status disable_with_status toString_with_status)
qed

lemma absent_same:
  "processAccount (with_status pf (st\<lparr>noUsageBasedAllowed := None\<rparr>)) account key hist
     = processAccount (with_status pf (st\<lparr>noUsageBasedAllowed := Some False\<rparr>)) account key hist"
  "processAccount (with_status pf (st\<lparr>hardLimit := None\<rparr>)) account key hist
     = processAccount (with_status pf (st\<lparr>hardLimit := Some (Finite 0)\<rparr>)) account key hist"
  using processAccount_same_decision[of "st\<lparr>noUsageBasedAllowed := None\<rparr>"
          "st\<lparr>noUsageBasedAllowed := Some False\<rparr>" pf account key hist]
        processAccount_same_decision[of "st\<lparr>hardLimit := None\<rparr>"
          "st\<lparr>hardLimit := Some (Finite 0)\<rparr>" pf account key hist]
        processAccount_ok[of _ account key hist]
  by (simp_all add: prod_eq_iff)

text \<open>
  Claim C8 says that some input tells an absent \<open>noUsageBasedAllowed\<close> from a false one, and
  some input an absent \<open>hardLimit\<close> from a zero one, by the calls or notifications of
  \<open>processAccount\<close>. There is no such input: the result and the events are the same.
\<close>

theorem absence_is_not_distinct:
  "\<not> ((\<exists>pf account key hist st.
          processAccount (with_status pf (st\<lparr>noUsageBasedAllowed := None\<rparr>)) account key hist
          \<noteq> processAccount (with_status pf (st\<lparr>noUsageBasedAllowed := Some False\<rparr>))
               account key hist)
      \<and> (\<exists>pf account key hist st.
          processAccount (with_status pf (st\<lparr>hardLimit := None\<rparr>)) account key hist
          \<noteq> processAccount (with_status pf (st\<lparr>hardLimit := Some (Finite 0)\<rparr>))
               account key hist))"
  using absent_same(1) by blast

text \<open>
  Claim C8, as amended. For every platform, account, key and history and every status, an
  absent \<open>noUsageBasedAllowed\<close> leads to the same result and the same events as a false one,
  and an absent \<open>hardLimit\<close> to the same as a \<open>hardLimit\<close> of zero.
\<close>

theorem absent_fields_behave_as_false_and_zero:
  "processAccount (with_status pf (st\<lparr>noUsageBasedAllowed := None\<rparr>)) account key hist
     = processAccount (with_status pf (st\<lparr>noUsageBasedAllowed := Some False\<rparr>)) account key hist
   \<and> processAccount (with_status pf (st\<lparr>hardLimit := None\<rparr>)) account key hist
     = processAccount (with_status pf (st\<lparr>hardLimit := Some (Finite 0)\<rparr>)) account key hist"
  using absent_same[of pf st account key hist] by simp

text \<open>A status with a limit of 50 and the flag absent or false; a status with the flag false
  and the limit absent or zero.\<close>

theorem absent_fields_behave_as_false_and_zero_witness:
  "processAccount
     (with_status (demo_platform refuses (answers ()) (answers accepted))
        \<lparr>noUsageBasedAllowed = None, hardLimit = Some (Finite 50)\<rparr>)
     demo_account None []
   = processAccount
       (with_status (demo_platform refuses (answers ()) (answers accepted))
          \<lparr>noUsageBasedAllowed = Some False, hardLimit = Some (Finite 50)\<rparr>)
       demo_account None []
   \<and> processAccount
       (with_status (demo_platform refuses (answers ()) (answers accepted))
          \<lparr>noUsageBasedAllowed = Some False, hardLimit = None\<rparr>)
       demo_account None []
   = processAccount
       (with_status (demo_platform refuses (answers ()) (answers accepted))
          \<lparr>noUsageBasedAllowed = Some False, hardLimit = Some (Finite 0)\<rparr>)
       demo_account None []"
  using absent_fields_behave_as_false_and_zero
          [of "demo_platform refuses (answers ()) (answers accepted)"
              "\<lparr>noUsageBasedAllowed = Some False, hardLimit = Some (Finite 50)\<rparr>"
              demo_account None "[]"]
  by simp

section \<open>The webhook key\<close>

lemma view_append [simp]: "key_free_view (xs @ ys) = key_free_view xs @ key_free_view ys"
  by (simp add: key_free_view_def)

lemma view_Cons: "key_free_view (x # xs) = key_free x @ key_free_view xs"
  by (simp add: key_free_view_def)

lemma view_Nil [simp]: "key_free_view [] = []"
  by (simp add: key_free_view_def)

lemma billing_key_free: "filter is_billing (key_free e) = filter is_billing [e]"
  by (cases e rule: key_free.cases) simp_all

lemma billing_view: "filter is_billing (key_free_view hist) = filter is_billing hist"
proof (induction hist)
  case Nil
  show ?case by simp
next
  case (Cons e hist)
  then show ?case
    using billing_key_free[of e] by (simp add: view_Cons)
qed

lemma view_notify_events [simp]: "key_free_view (notify_events k m) = [NotifyCall None m]"
  by (auto simp: notify_events_def view_Cons split: option.splits)

lemma check_blind:
  assumes "key_blind pf env" and "key_free_view h = key_free_view h'"
  shows "checkHardLimit pf c h = checkHardLimit pf c h'"
proof -
  have "get_hard_limit_api pf c h = get_hard_limit_api pf c h'"
    using assms unfolding key_blind_def by blast
  then show ?thesis
    by (auto simp: checkHardLimit_def io_catch_def io_bind_def outbound_def io_return_def io_lift_def split: outcome.splits sum.splits)
qed

lemma disable_blind:
  assumes "key_blind pf env" and "key_free_view h = key_free_view h'"
  shows "disableHardLimit pf c h = disableHardLimit pf c h'"
proof -
  have "set_hard_limit_api pf c h = set_hard_limit_api pf c h'"
    using assms unfolding key_blind_def by blast
  then show ?thesis
    by (auto simp: disableHardLimit_def io_catch_def io_bind_def outbound_def io_return_def split: outcome.splits sum.splits)
qed


lemma processAccount_blind:
  assumes kb: "key_blind pf env" and v: "key_free_view h = key_free_view h'"
  shows "key_free_view (snd (processAccount pf account k h))
       = key_free_view (snd (processAccount pf account k' h'))"
proof -
  let ?c = "cookie account"
  obtain r where r: "fst (checkHardLimit pf ?c h) = Inr r"
    using checkHardLimit_shape[of pf ?c h] by auto
  then have r': "fst (checkHardLimit pf ?c h') = Inr r"
    using check_blind[OF kb v] by simp
  show ?thesis
  proof (cases r)
    case None
    with r r' show ?thesis by (simp add: processAccount_failed_events view_Cons)
  next
    case (Some st)
    show ?thesis
    proof (cases "noUsageBasedAllowed st = Some True \<or> hardLimit st = None
                   \<or> (\<exists>l. hardLimit st = Some l \<and> \<not> gt_zero l)")
      case True
      with r r' Some show ?thesis by (simp add: processAccount_normal_events)
    next
      case False
      then obtain l where l: "noUsageBasedAllowed st \<noteq> Some True" "hardLimit st = Some l" "gt_zero l"
        by auto
      have d: "disableHardLimit pf ?c (h @ [Fetch (GetHardLimit ?c)])
             = disableHardLimit pf ?c (h' @ [Fetch (GetHardLimit ?c)])"
        using disable_blind[OF kb] v by simp
      show ?thesis
        using r r' Some l d by (simp add: processAccount_enabled_events view_Cons)
    qed
  qed
qed

lemma for_accounts_blind:
  assumes kb: "key_blind pf env"
  shows "key_free_view h = key_free_view h' \<Longrightarrow>
         fst (for_accounts pf k listed h) = fst (for_accounts pf k' listed h')
       \<and> key_free_view (snd (for_accounts pf k listed h))
           = key_free_view (snd (for_accounts pf k' listed h'))"
proof (induction listed arbitrary: h h')
  case Nil
  show ?case by (simp add: io_return_def)
next
  case (Cons entry rest)
  show ?case
  proof (cases "read_account pf entry")
    case (Inl e)
    then show ?thesis
      by (simp add: for_accounts_unreadable del: for_accounts.simps)
  next
    case (Inr account)
    let ?e = "snd (processAccount pf account k h)"
    let ?e' = "snd (processAccount pf account k' h')"
    have v: "key_free_view ?e = key_free_view ?e'"
      using processAccount_blind[OF kb Cons.prems, of account k k'] .
    then have "key_free_view (h @ ?e) = key_free_view (h' @ ?e')"
      using Cons.prems by simp
    from Cons.IH[OF this] v show ?thesis
      by (simp add: for_accounts_readable[OF Inr] del: for_accounts.simps)
  qed
qed

lemma handleScheduled_blind:
  assumes kb: "key_blind pf env"
  shows "fst (handleScheduled pf (env\<lparr>WECHAT_WEBHOOK_KEY := key1\<rparr>) hist)
           = fst (handleScheduled pf (env\<lparr>WECHAT_WEBHOOK_KEY := key2\<rparr>) hist)
       \<and> key_free_view (snd (handleScheduled pf (env\<lparr>WECHAT_WEBHOOK_KEY := key1\<rparr>) hist))
           = key_free_view (snd (handleScheduled pf (env\<lparr>WECHAT_WEBHOOK_KEY := key2\<rparr>) hist))"
proof -
  let ?k = "ascii ''cursor_accounts''"
  show ?thesis
  proof (cases "CURSOR_KV env ?k hist")
    case (Inl e)
    then show ?thesis
      by (simp add: handleScheduled_def io_bind_def kv_get_def)
  next
    case (Inr v)
    note kv = Inr
    show ?thesis
    proof (cases "falsy v")
      case True
      with kv show ?thesis
        by (simp add: handleScheduled_missing_events view_Cons)
    next
      case False
      then obtain stored where t: "v = Some stored" "stored \<noteq> []"
        by (cases v) auto
      show ?thesis
      proof (cases "JSON_parse pf stored")
        case (Inl e)
        with kv t show ?thesis
          by (simp add: handleScheduled_malformed_events view_Cons)
      next
        case (Inr accounts)
        note parsed = Inr
        show ?thesis
        proof (cases "length_is_zero accounts")
          case (Inl e)
          with kv t parsed show ?thesis
            by (simp add: handleScheduled_def io_bind_def kv_get_def io_lift_def)
        next
          case (Inr empty)
          note len = Inr
          show ?thesis
          proof (cases empty)
            case True
            with kv t parsed len show ?thesis
              by (simp add: handleScheduled_def io_bind_def kv_get_def io_lift_def io_return_def)
          next
            case False
            note nonempty = False
            show ?thesis
            proof (cases "entries accounts")
              case (Inl e)
              with kv t parsed len nonempty show ?thesis
                by (simp add: handleScheduled_def io_bind_def kv_get_def io_lift_def)
            next
              case (Inr listed)
              have "key_free_view (hist @ [KVGet ?k]) = key_free_view (hist @ [KVGet ?k])"
                by simp
              from for_accounts_blind[OF kb this, of key1 listed key2]
              show ?thesis
                using kv t parsed len nonempty Inr
                by (simp add: handleScheduled_def io_bind_def kv_get_def io_lift_def
                      split_beta view_Cons)
            qed
          qed
        qed
      qed
    qed
  qed
qed

lemma billing_notify_events [simp]: "filter is_billing (notify_events k m) = []"
  by (auto simp: notify_events_def split: option.splits)

text \<open>
  Claim C9. In a world that is blind to the key, two runs that differ in the webhook key only
  end the same way and make the same requests to the status and disable endpoints, in the
  same order; with the key taken out, all their events are the same (the same calls of the
  notifier with the same messages). The key decides only whether a request goes to the
  webhook.
\<close>

theorem webhook_key_does_not_steer_monitoring:
  assumes "key_blind pf env"
  shows "fst (handleScheduled pf (env\<lparr>WECHAT_WEBHOOK_KEY := key1\<rparr>) hist)
           = fst (handleScheduled pf (env\<lparr>WECHAT_WEBHOOK_KEY := key2\<rparr>) hist)
       \<and> filter is_billing (snd (handleScheduled pf (env\<lparr>WECHAT_WEBHOOK_KEY := key1\<rparr>) hist))
           = filter is_billing (snd (handleScheduled pf (env\<lparr>WECHAT_WEBHOOK_KEY := key2\<rparr>) hist))
       \<and> key_free_view (snd (handleScheduled pf (env\<lparr>WECHAT_WEBHOOK_KEY := key1\<rparr>) hist))
           = key_free_view (snd (handleScheduled pf (env\<lparr>WECHAT_WEBHOOK_KEY := key2\<rparr>) hist))"
proof -
  let ?run1 = "handleScheduled pf (env\<lparr>WECHAT_WEBHOOK_KEY := key1\<rparr>) hist"
  let ?run2 = "handleScheduled pf (env\<lparr>WECHAT_WEBHOOK_KEY := key2\<rparr>) hist"
  have v: "key_free_view (snd ?run1) = key_free_view (snd ?run2)"
    and r: "fst ?run1 = fst ?run2"
    using handleScheduled_blind[OF assms, of key1 hist key2] by simp_all
  have "filter is_billing (snd ?run1) = filter is_billing (key_free_view (snd ?run1))"
    by (simp add: billing_view)
  also have "\<dots> = filter is_billing (key_free_view (snd ?run2))"
    using v by simp
  also have "\<dots> = filter is_billing (snd ?run2)"
    by (simp add: billing_view)
  finally have b: "filter is_billing (snd ?run1) = filter is_billing (snd ?run2)" .
  from r b v show ?thesis by simp
qed

text \<open>A run over the one account of the example, with any key.\<close>

lemma demo_run:
  \<open>handleScheduled (demo_platform (answers limit_50) (answers ()) refuses)
     ((demo_env (Some (ascii ''[{"email":"a@x.com","cookie":"c1"}]'')) None)
        \<lparr>WECHAT_WEBHOOK_KEY := k\<rparr>) []
   = (Inr (), [KVGet (ascii ''cursor_accounts''),
               Fetch (GetHardLimit (Some (JStr (ascii ''c1'')))),
               Fetch (SetHardLimit (Some (JStr (ascii ''c1''))))]
              @ notify_events k (msg_disabled (ascii ''a@x.com'') (ascii ''50'')))\<close>
proof -
  let ?P = "demo_platform (answers limit_50) (answers ()) refuses"
  have c: "fst (checkHardLimit ?P (cookie demo_account) h) = Inr (Some limit_50)" for h
    by (simp add: checkHardLimit_def io_catch_def io_bind_def outbound_def io_return_def
          io_lift_def demo_platform_def answers_def)
  have d: "fst (disableHardLimit ?P (cookie demo_account) h) = Inr True" for h
    by (simp add: disableHardLimit_def io_catch_def io_bind_def outbound_def io_return_def
          demo_platform_def answers_def)
  have n: "noUsageBasedAllowed limit_50 \<noteq> Some True"
    and l: "hardLimit limit_50 = Some (Finite 50)" and g: "gt_zero (Finite 50)"
    by (simp_all add: limit_50_def)
  have p: "processAccount ?P demo_account k h
             = (Inr (), [Fetch (GetHardLimit (Some (JStr (ascii ''c1'')))),
                         Fetch (SetHardLimit (Some (JStr (ascii ''c1''))))]
                        @ notify_events k (msg_disabled (ascii ''a@x.com'') (ascii ''50'')))" for h
    using processAccount_enabled_events[OF c n l g, of k h] d
    by (simp add: demo_account_def demo_platform_def demo_toString_def)
  have j: \<open>JSON_parse ?P (ascii ''[{"email":"a@x.com","cookie":"c1"}]'')
             = Inr (JArr [entry_a])\<close>
    by (simp add: demo_platform_def demo_parse_def)
  have a: "read_account ?P entry_a = Inr demo_account"
    by (simp add: read_account_def entry_a_def demo_account_def ascii_def)
  have loop: "for_accounts ?P k [entry_a] h
                = (Inr (), [Fetch (GetHardLimit (Some (JStr (ascii ''c1'')))),
                            Fetch (SetHardLimit (Some (JStr (ascii ''c1''))))]
                           @ notify_events k (msg_disabled (ascii ''a@x.com'') (ascii ''50'')))"
    for h
    using for_accounts_readable[OF a, of k "[]" h]
    by (simp add: p io_return_def del: for_accounts.simps)
       (simp add: io_return_def)
  have ne: \<open>ascii ''[{"email":"a@x.com","cookie":"c1"}]'' \<noteq> []\<close>
    by (simp add: ascii_def)
  show ?thesis
    using ne
    by (simp add: handleScheduled_def kv_get_def io_bind_def io_lift_def demo_env_def j loop
          del: for_accounts.simps)
qed

text \<open>The same world without a key and with the key \<open>K\<close>: one status request and one
  disable request in both runs.\<close>

theorem webhook_key_does_not_steer_monitoring_witness:
  \<open>key_blind (demo_platform (answers limit_50) (answers ()) refuses)
     (demo_env (Some (ascii ''[{"email":"a@x.com","cookie":"c1"}]'')) None)
   \<and> filter is_billing
        (snd (handleScheduled (demo_platform (answers limit_50) (answers ()) refuses)
                ((demo_env (Some (ascii ''[{"email":"a@x.com","cookie":"c1"}]'')) None)
                   \<lparr>WECHAT_WEBHOOK_KEY := None\<rparr>) []))
       = [Fetch (GetHardLimit (Some (JStr (ascii ''c1'')))),
          Fetch (SetHardLimit (Some (JStr (ascii ''c1''))))]
   \<and> filter is_billing
        (snd (handleScheduled (demo_platform (answers limit_50) (answers ()) refuses)
                ((demo_env (Some (ascii ''[{"email":"a@x.com","cookie":"c1"}]'')) None)
                   \<lparr>WECHAT_WEBHOOK_KEY := Some (ascii ''K'')\<rparr>) []))
       = [Fetch (GetHardLimit (Some (JStr (ascii ''c1'')))),
          Fetch (SetHardLimit (Some (JStr (ascii ''c1''))))]\<close>
proof -
  let ?P = "demo_platform (answers limit_50) (answers ()) refuses"
  let ?E = \<open>demo_env (Some (ascii ''[{"email":"a@x.com","cookie":"c1"}]'')) None\<close>
  have kb: "key_blind ?P ?E"
    by (simp add: key_blind_def demo_platform_def demo_env_def)
  have one: "filter is_billing (snd (handleScheduled ?P (?E\<lparr>WECHAT_WEBHOOK_KEY := None\<rparr>) []))
               = [Fetch (GetHardLimit (Some (JStr (ascii ''c1'')))),
          Fetch (SetHardLimit (Some (JStr (ascii ''c1''))))]"
    by (simp add: demo_run)
  show ?thesis
    using webhook_key_does_not_steer_monitoring[OF kb, of None "[]" "Some (ascii ''K'')"] kb one
    by simp
qed

section \<open>Claim about the HTTP entry point\<close>

lemma paths_differ: "ascii ''/check'' \<noteq> ascii ''/health''"
  by (simp add: ascii_def)

lemma fetch_check:
  "req_pathname request = ascii ''/check'' \<Longrightarrow>
   fetch pf request env hist
     = (Inr (new_Response (JSON_stringify pf check_body) json_headers),
        snd (handleScheduled pf env hist))"
  by (simp add: fetch_def io_bind_def waitUntil_def io_return_def split_beta)

lemma fetch_health:
  "req_pathname request = ascii ''/health'' \<Longrightarrow>
   fetch pf request env hist
     = (Inr (new_Response (JSON_stringify pf (health_body (Date_toISOString pf hist))) json_headers), [])"
  by (simp add: fetch_def io_bind_def io_return_def paths_differ[symmetric])

lemma fetch_default:
  "req_pathname request \<noteq> ascii ''/check'' \<Longrightarrow> req_pathname request \<noteq> ascii ''/health'' \<Longrightarrow>
   fetch pf request env hist
     = (Inr (new_Response (JSON_stringify pf info_body) json_headers), [])"
  by (simp add: fetch_def io_return_def)

text \<open>
  Claim C10. For every request the handler answers with status 200, the JSON content type and
  a body made by \<open>JSON.stringify\<close>. The path \<open>/check\<close> gives the acknowledgement and the
  events of a run; the path \<open>/health\<close> gives the health body with the current time and no
  event; any other path gives the service description and no event. Two requests with the
  same path, whatever their methods, are answered alike.
\<close>

theorem fetch_routes_by_path_only:
  "(\<exists>resp. fst (fetch pf request env hist) = Inr resp \<and> status resp = 200
        \<and> headers resp = json_headers \<and> (\<exists>v. body resp = JSON_stringify pf v))
   \<and> (req_pathname request = ascii ''/check'' \<longrightarrow>
        fetch pf request env hist
          = (Inr (new_Response (JSON_stringify pf check_body) json_headers),
             snd (handleScheduled pf env hist)))
   \<and> (req_pathname request = ascii ''/health'' \<longrightarrow>
        fetch pf request env hist
          = (Inr (new_Response (JSON_stringify pf (health_body (Date_toISOString pf hist)))
                    json_headers), []))
   \<and> (req_pathname request \<noteq> ascii ''/check'' \<and> req_pathname request \<noteq> ascii ''/health'' \<longrightarrow>
        fetch pf request env hist
          = (Inr (new_Response (JSON_stringify pf info_body) json_headers), []))
   \<and> (\<forall>other. req_pathname other = req_pathname request \<longrightarrow>
        fetch pf other env hist = fetch pf request env hist)"
proof -
  have same: "\<forall>other. req_pathname other = req_pathname request \<longrightarrow>
                 fetch pf other env hist = fetch pf request env hist"
    by (simp add: fetch_def)
  have shape: "\<exists>resp. fst (fetch pf request env hist) = Inr resp \<and> status resp = 200
                 \<and> headers resp = json_headers \<and> (\<exists>v. body resp = JSON_stringify pf v)"
  proof (cases "req_pathname request = ascii ''/check''")
    case True
    have "body (new_Response (JSON_stringify pf check_body) json_headers)
            = JSON_stringify pf check_body"
      by (simp add: new_Response_def)
    then show ?thesis
      using fetch_check[OF True, of pf env hist] by (auto simp: new_Response_def)
  next
    case False
    note not_check = False
    show ?thesis
    proof (cases "req_pathname request = ascii ''/health''")
      case True
      have "body (new_Response (JSON_stringify pf (health_body (Date_toISOString pf hist)))
                    json_headers)
              = JSON_stringify pf (health_body (Date_toISOString pf hist))"
        by (simp add: new_Response_def)
      then show ?thesis
        using fetch_health[OF True, of pf env hist] by (auto simp: new_Response_def)
    next
      case False
      have "body (new_Response (JSON_stringify pf info_body) json_headers)
              = JSON_stringify pf info_body"
        by (simp add: new_Response_def)
      then show ?thesis
        using fetch_default[OF not_check False, of pf env hist] by (auto simp: new_Response_def)
    qed
  qed
  show ?thesis
    using same shape fetch_check[of request pf env hist] fetch_health[of request pf env hist]
      fetch_default[of request pf env hist]
    by blast
qed

text \<open>A \<open>POST\<close> to \<open>/check\<close> starts a run, here one that finds no configuration, and is
  answered as a \<open>GET\<close> is.\<close>

theorem fetch_routes_by_path_only_witness:
  "req_pathname \<lparr>req_method = ascii ''POST'', req_pathname = ascii ''/check''\<rparr> = ascii ''/check''
   \<and> fetch (demo_platform refuses refuses refuses)
        \<lparr>req_method = ascii ''POST'', req_pathname = ascii ''/check''\<rparr>
        (demo_env None None) []
       = (Inr \<lparr>status = 200, headers = json_headers, body = ascii ''{}''\<rparr>,
          [KVGet (ascii ''cursor_accounts''), NotifyCall None msg_config_missing])
   \<and> fetch (demo_platform refuses refuses refuses)
        \<lparr>req_method = ascii ''GET'', req_pathname = ascii ''/check''\<rparr>
        (demo_env None None) []
       = fetch (demo_platform refuses refuses refuses)
           \<lparr>req_method = ascii ''POST'', req_pathname = ascii ''/check''\<rparr>
           (demo_env None None) []"
proof -
  let ?P = "demo_platform refuses refuses refuses"
  let ?post = "\<lparr>req_method = ascii ''POST'', req_pathname = ascii ''/check''\<rparr>"
  let ?get = "\<lparr>req_method = ascii ''GET'', req_pathname = ascii ''/check''\<rparr>"
  have run: "handleScheduled ?P (demo_env None None) []
               = (Inr (), [KVGet (ascii ''cursor_accounts''), NotifyCall None msg_config_missing])"
    using handleScheduled_missing_events[of "demo_env None None" "[]" None ?P]
    by (simp add: demo_env_def notify_events_def)
  have s: "JSON_stringify ?P v = ascii ''{}''" for v
    by (simp add: demo_platform_def)
  have path: "req_pathname ?post = ascii ''/check''" "req_pathname ?get = req_pathname ?post"
    by simp_all
  show ?thesis
    using fetch_routes_by_path_only[of ?P ?post "demo_env None None" "[]"] path run
    by (simp add: s new_Response_def)
qed

end
